theory Spec2Isabelle
  imports Main "HOL-Library.Monad_Syntax"
begin

section \<open>Handicap placement\<close>

text \<open>
  Python's slice \<^verbatim>\<open>xs[:n]\<close>: the first \<open>n\<close> elements for \<open>n \<ge> 0\<close>, and all but the
  last \<open>-n\<close> elements for a negative \<open>n\<close>.
\<close>

definition py_slice_to :: "'a list \<Rightarrow> int \<Rightarrow> 'a list" where
  "py_slice_to xs n =
     (if 0 \<le> n then take (nat n) xs else take (nat (int (length xs) + n)) xs)"

text \<open>
  \<^verbatim>\<open>Game.place_handicap_stones\<close> (game.py, lines 144-152). The result is the list
  \<^verbatim>\<open>stones[:n_handicaps]\<close> of coordinate pairs that the method hands, one \<^verbatim>\<open>Move\<close> each,
  to the root node's \<^verbatim>\<open>AB\<close> property; \<open>div\<close> on \<open>int\<close> rounds down as \<^verbatim>\<open>//\<close> does.
\<close>

definition place_handicap_stones :: "int \<Rightarrow> int \<Rightarrow> (int \<times> int) list" where
  "place_handicap_stones board_size n_handicaps =
     (let near = (if board_size \<ge> 13 then 3 else 2);
          far = board_size - 1 - near;
          middle = board_size div 2;
          stones = [(far, far), (near, near), (far, near), (near, far)];
          stones = (if n_handicaps mod 2 = 1 then stones @ [(middle, middle)] else stones);
          stones = stones @ [(near, middle), (far, middle), (middle, near), (middle, far)]
      in py_slice_to stones n_handicaps)"

text \<open>
  The candidate list in the words of the specification (section 4.4): near is 2 below
  size 13 and 3 otherwise, far is \<open>board_size - 1 - near\<close>, middle is half the size;
  the four corner points, then the centre only for an odd count, then the four side points.
\<close>

definition spec_near :: "int \<Rightarrow> int" where
  "spec_near board_size = (if board_size < 13 then 2 else 3)"

definition spec_far :: "int \<Rightarrow> int" where
  "spec_far board_size = board_size - 1 - spec_near board_size"

definition spec_middle :: "int \<Rightarrow> int" where
  "spec_middle board_size = board_size div 2"

definition spec_handicap_candidates :: "int \<Rightarrow> int \<Rightarrow> (int \<times> int) list" where
  "spec_handicap_candidates board_size n =
     [(spec_far board_size, spec_far board_size), (spec_near board_size, spec_near board_size),
      (spec_far board_size, spec_near board_size), (spec_near board_size, spec_far board_size)]
     @ (if odd n then [(spec_middle board_size, spec_middle board_size)] else [])
     @ [(spec_near board_size, spec_middle board_size), (spec_far board_size, spec_middle board_size),
        (spec_middle board_size, spec_near board_size), (spec_middle board_size, spec_far board_size)]"

section \<open>Theorems\<close>

subsection \<open>Handicap placement\<close>

lemma length_spec_handicap_candidates:
  "length (spec_handicap_candidates board_size n) = (if odd n then 9 else 8)"
  by (simp add: spec_handicap_candidates_def)

lemma place_handicap_stones_eq_spec:
  "0 \<le> n \<Longrightarrow>
   place_handicap_stones board_size n = take (nat n) (spec_handicap_candidates board_size n)"
proof -
  assume n: "0 \<le> n"
  have "place_handicap_stones board_size n
      = py_slice_to (spec_handicap_candidates board_size n) n"
    by (cases "odd n")
      (simp_all add: place_handicap_stones_def spec_handicap_candidates_def
        spec_near_def spec_far_def spec_middle_def Let_def odd_iff_mod_2_eq_one)
  then show ?thesis using n by (simp add: py_slice_to_def)
qed

text \<open>
  Claim C9. For every board size and every handicap count \<open>n\<close> from 2 to 9,
  \<open>place_handicap_stones\<close> yields exactly the first \<open>n\<close> points (and \<open>n\<close> of them) of the
  candidate list of the specification; on a 19x19 board these are the star points
  (15,15), (3,3), (15,3), (3,15), the centre (9,9) for odd counts, then (3,9), (15,9),
  (9,3), (9,15).
\<close>

theorem place_handicap_stones_first_n:
  "(\<forall>board_size n. 2 \<le> n \<and> n \<le> 9 \<longrightarrow>
      place_handicap_stones board_size n = take (nat n) (spec_handicap_candidates board_size n)
      \<and> length (place_handicap_stones board_size n) = nat n)
   \<and> place_handicap_stones 19 2 = [(15, 15), (3, 3)]
   \<and> place_handicap_stones 19 3 = [(15, 15), (3, 3), (15, 3)]
   \<and> place_handicap_stones 19 4 = [(15, 15), (3, 3), (15, 3), (3, 15)]
   \<and> place_handicap_stones 19 5 = [(15, 15), (3, 3), (15, 3), (3, 15), (9, 9)]
   \<and> place_handicap_stones 19 6 = [(15, 15), (3, 3), (15, 3), (3, 15), (3, 9), (15, 9)]
   \<and> place_handicap_stones 19 7 = [(15, 15), (3, 3), (15, 3), (3, 15), (9, 9), (3, 9), (15, 9)]
   \<and> place_handicap_stones 19 8 =
        [(15, 15), (3, 3), (15, 3), (3, 15), (3, 9), (15, 9), (9, 3), (9, 15)]
   \<and> place_handicap_stones 19 9 =
        [(15, 15), (3, 3), (15, 3), (3, 15), (9, 9), (3, 9), (15, 9), (9, 3), (9, 15)]"
proof -
  have gen: "place_handicap_stones board_size n = take (nat n) (spec_handicap_candidates board_size n)
      \<and> length (place_handicap_stones board_size n) = nat n"
    if "2 \<le> n" "n \<le> 9" for board_size n :: int
  proof -
    have eq: "place_handicap_stones board_size n
        = take (nat n) (spec_handicap_candidates board_size n)"
      using that by (simp add: place_handicap_stones_eq_spec)
    have "nat n \<le> length (spec_handicap_candidates board_size n)"
    proof (cases "odd n")
      case True
      then show ?thesis using that by (simp add: length_spec_handicap_candidates)
    next
      case False
      then have "n \<noteq> 9" by auto
      then show ?thesis using that False by (simp add: length_spec_handicap_candidates)
    qed
    then show ?thesis using eq by simp
  qed
  have tab: "place_handicap_stones 19 2 = [(15, 15), (3, 3)]"
    "place_handicap_stones 19 3 = [(15, 15), (3, 3), (15, 3)]"
    "place_handicap_stones 19 4 = [(15, 15), (3, 3), (15, 3), (3, 15)]"
    "place_handicap_stones 19 5 = [(15, 15), (3, 3), (15, 3), (3, 15), (9, 9)]"
    "place_handicap_stones 19 6 = [(15, 15), (3, 3), (15, 3), (3, 15), (3, 9), (15, 9)]"
    "place_handicap_stones 19 7 = [(15, 15), (3, 3), (15, 3), (3, 15), (9, 9), (3, 9), (15, 9)]"
    "place_handicap_stones 19 8 =
        [(15, 15), (3, 3), (15, 3), (3, 15), (3, 9), (15, 9), (9, 3), (9, 15)]"
    "place_handicap_stones 19 9 =
        [(15, 15), (3, 3), (15, 3), (3, 15), (9, 9), (3, 9), (15, 9), (9, 3), (9, 15)]"
    by (simp_all add: place_handicap_stones_def py_slice_to_def Let_def)
  show ?thesis using gen tab by blast
qed

theorem place_handicap_stones_first_n_witness:
  "(2::int) \<le> 5 \<and> (5::int) \<le> 9
   \<and> place_handicap_stones 9 5 = take (nat 5) (spec_handicap_candidates 9 5)
   \<and> place_handicap_stones 9 5 = [(6, 6), (2, 2), (6, 2), (2, 6), (4, 4)]"
proof -
  have "place_handicap_stones 9 5 = take (nat 5) (spec_handicap_candidates 9 5)"
    using place_handicap_stones_first_n by simp
  moreover have "place_handicap_stones 9 5 = [(6, 6), (2, 2), (6, 2), (2, 6), (4, 4)]"
    by (simp add: place_handicap_stones_def py_slice_to_def Let_def)
  ultimately show ?thesis by simp
qed

text \<open>
  Claim C10. A handicap count of 1 is neither rejected nor ignored: for every board size
  \<open>place_handicap_stones\<close> yields exactly one placement, the point (far, far) with
  \<open>far = board_size - 1 - near\<close>.
\<close>

theorem place_handicap_stones_one:
  "place_handicap_stones board_size 1 =
     [(board_size - 1 - (if board_size \<ge> 13 then 3 else 2),
       board_size - 1 - (if board_size \<ge> 13 then 3 else 2))]"
  by (simp add: place_handicap_stones_def py_slice_to_def Let_def)

end
